theory Spec2Isabelle
  imports Main
begin

section \<open>The REST client (packages/api-client)\<close>

subsection \<open>JavaScript values, requests and the HTTP client\<close>

text \<open>
  The values the client passes around: JSON together with \<open>undefined\<close>. An object is its
  list of properties, in order; reading a property that is absent gives \<open>undefined\<close>.
\<close>

datatype js =
    Undefined
  | Null
  | Bool bool
  | Num int
  | Str string
  | Arr "js list"
  | Obj "(string \<times> js) list"

type_synonym js_object = "(string \<times> js) list"

definition property :: "js_object \<Rightarrow> string \<Rightarrow> js" where
  "property obj k = (case map_of obj k of Some v \<Rightarrow> v | None \<Rightarrow> Undefined)"

definition keys :: "js \<Rightarrow> string list" where
  "keys v = (case v of Obj ps \<Rightarrow> map fst ps | _ \<Rightarrow> [])"

datatype verb = GET | POST | PATCH | DELETE

record request =
  verb :: verb
  path :: string
  query :: "js_object option"
  body :: "js option"

text \<open>
  Modelled from the spec: the class \<open>ApiClientError\<close> of the api-client package, whose
  file is not among the sources. A client error carries the HTTP status. What a caller can
  catch is such an error or any other thrown value.
\<close>

datatype thrown = ApiClientError nat | Thrown js

text \<open>
  The server and the network are outside the repository: \<open>http\<close> gives the outcome of one
  HTTP call, the parsed body or the error thrown. The state threaded through every call
  is the list of HTTP requests issued so far.
\<close>

type_synonym http = "request \<Rightarrow> thrown + js"

type_synonym 'a call = "request list \<Rightarrow> 'a \<times> request list"

text \<open>
  Modelled from the spec: the class \<open>ApiClient\<close> of \<open>./client\<close>, whose file is not among
  the sources. Its methods \<open>get\<close>, \<open>post\<close>, \<open>patch\<close> and \<open>delete\<close> each perform exactly one
  HTTP call with the verb of their name and return the parsed body or throw a client
  error carrying the HTTP status.
\<close>

definition ApiClient_request :: "http \<Rightarrow> request \<Rightarrow> (thrown + js) call" where
  "ApiClient_request net r log = (net r, log @ [r])"

definition ApiClient_get :: "http \<Rightarrow> string \<Rightarrow> js_object option \<Rightarrow> (thrown + js) call" where
  "ApiClient_get net p q =
     ApiClient_request net \<lparr>verb = GET, path = p, query = q, body = None\<rparr>"

definition ApiClient_post :: "http \<Rightarrow> string \<Rightarrow> js option \<Rightarrow> (thrown + js) call" where
  "ApiClient_post net p b =
     ApiClient_request net \<lparr>verb = POST, path = p, query = None, body = b\<rparr>"

definition ApiClient_patch :: "http \<Rightarrow> string \<Rightarrow> js option \<Rightarrow> (thrown + js) call" where
  "ApiClient_patch net p b =
     ApiClient_request net \<lparr>verb = PATCH, path = p, query = None, body = b\<rparr>"

definition ApiClient_delete :: "http \<Rightarrow> string \<Rightarrow> (thrown + js) call" where
  "ApiClient_delete net p =
     ApiClient_request net \<lparr>verb = DELETE, path = p, query = None, body = None\<rparr>"

text \<open>
  An \<open>async\<close> method that awaits a call and returns nothing resolves to \<open>undefined\<close> when
  the call resolves, whatever it resolved to, and rejects with the call's error.
\<close>

definition await_void :: "(thrown + js) call \<Rightarrow> (thrown + js) call" where
  "await_void c log =
     (case c log of
        (Inl e, log') \<Rightarrow> (Inl e, log')
      | (Inr _, log') \<Rightarrow> (Inr Undefined, log'))"

subsection \<open>Auth (auth.ts, first module)\<close>

definition Auth_session :: "http \<Rightarrow> (thrown + js) call" where
  "Auth_session net = ApiClient_get net ''/api/auth/session'' None"

text \<open>\<open>login({ email, password })\<close>: the two properties are read off the argument and a
  new object is built from them.\<close>

definition Auth_login :: "http \<Rightarrow> js_object \<Rightarrow> (thrown + js) call" where
  "Auth_login net arg =
     (let email = property arg ''email''; password = property arg ''password''
      in ApiClient_post net ''/api/auth/login''
           (Some (Obj [(''email'', email), (''password'', password)])))"

definition Auth_logout :: "http \<Rightarrow> (thrown + js) call" where
  "Auth_logout net = ApiClient_post net ''/api/auth/logout'' None"

definition Auth_getInvite :: "http \<Rightarrow> string \<Rightarrow> (thrown + js) call" where
  "Auth_getInvite net token =
     ApiClient_get net ''/api/auth/invite'' (Some [(''token'', Str token)])"

definition Auth_acceptInvite :: "http \<Rightarrow> js_object \<Rightarrow> (thrown + js) call" where
  "Auth_acceptInvite net arg =
     (let token = property arg ''token''; name = property arg ''name'';
          password = property arg ''password''
      in ApiClient_post net ''/api/auth/invite''
           (Some (Obj [(''token'', token), (''name'', name), (''password'', password)])))"

subsection \<open>Languages (auth.ts, second module)\<close>

definition Languages_findAll :: "http \<Rightarrow> (thrown + js) call" where
  "Languages_findAll net = ApiClient_get net ''/api/languages'' None"

definition Languages_create :: "http \<Rightarrow> js_object \<Rightarrow> (thrown + js) call" where
  "Languages_create net language =
     await_void (ApiClient_post net ''/api/languages'' (Some (Obj language)))"

definition Languages_startImport :: "http \<Rightarrow> string \<Rightarrow> js_object \<Rightarrow> (thrown + js) call" where
  "Languages_startImport net code b =
     await_void (ApiClient_post net (''/api/languages/'' @ code @ ''/import'') (Some (Obj b)))"

definition Languages_importStatus :: "http \<Rightarrow> string \<Rightarrow> (thrown + js) call" where
  "Languages_importStatus net code =
     await_void (ApiClient_get net (''/api/languages/'' @ code @ ''/import'') None)"

definition Languages_findByCode :: "http \<Rightarrow> string \<Rightarrow> (thrown + js) call" where
  "Languages_findByCode net code = ApiClient_get net (''/api/languages/'' @ code) None"

definition Languages_update :: "http \<Rightarrow> string \<Rightarrow> js_object \<Rightarrow> (thrown + js) call" where
  "Languages_update net code language =
     await_void (ApiClient_patch net (''/api/languages/'' @ code) (Some (Obj language)))"

definition Languages_findMembers :: "http \<Rightarrow> string \<Rightarrow> (thrown + js) call" where
  "Languages_findMembers net code =
     ApiClient_get net (''/api/languages/'' @ code @ ''/members'') None"

definition Languages_inviteMember :: "http \<Rightarrow> string \<Rightarrow> js_object \<Rightarrow> (thrown + js) call" where
  "Languages_inviteMember net code request =
     ApiClient_post net (''/api/languages/'' @ code @ ''/members'') (Some (Obj request))"

definition Languages_updateMember :: "http \<Rightarrow> string \<Rightarrow> string \<Rightarrow> js list \<Rightarrow> (thrown + js) call" where
  "Languages_updateMember net code userId roles =
     (let b = Obj [(''roles'', Arr roles)]
      in ApiClient_patch net (''/api/languages/'' @ code @ ''/members/'' @ userId) (Some b))"

definition Languages_removeMember :: "http \<Rightarrow> string \<Rightarrow> string \<Rightarrow> (thrown + js) call" where
  "Languages_removeMember net code userId =
     ApiClient_delete net (''/api/languages/'' @ code @ ''/members/'' @ userId)"

section \<open>The login view (LoginView.tsx)\<close>

text \<open>
  What the submit handler can leave behind: flash messages, refreshes of the auth state,
  navigations, and the HTTP requests issued.
\<close>

datatype flash = FlashError string

record ui =
  flashes :: "flash list"
  refreshes :: nat
  navigations :: "string list"
  requests :: "request list"

text \<open>
  The handler's surroundings, which the view takes from hooks and libraries and the model
  takes as parameters: the network, the translation function \<open>t\<close>, the string form of a
  thrown value (what a template literal makes of it), and whether \<open>refreshAuth\<close> and
  \<open>navigate\<close>, which run inside the same \<open>try\<close>, throw.
\<close>

record env =
  env_net :: http
  env_t :: "string \<Rightarrow> string"
  env_to_string :: "thrown \<Rightarrow> string"
  refreshAuth_throws :: "thrown option"
  navigate_throws :: "string \<Rightarrow> thrown option"

definition flash_error :: "string \<Rightarrow> ui \<Rightarrow> ui" where
  "flash_error msg u = u\<lparr>flashes := flashes u @ [FlashError msg]\<rparr>"

definition on_catch :: "env \<Rightarrow> thrown \<Rightarrow> ui \<Rightarrow> ui" where
  "on_catch e error u =
     (if (case error of ApiClientError status \<Rightarrow> status = 401 | Thrown _ \<Rightarrow> False)
      then flash_error (env_t e ''users:errors.invalid_auth'') u
      else flash_error (env_to_string e error) u)"

definition onSubmit :: "env \<Rightarrow> js_object \<Rightarrow> ui \<Rightarrow> ui" where
  "onSubmit e form u =
     (let email = property form ''email''; password = property form ''password'' in
      case Auth_login (env_net e) [(''email'', email), (''password'', password)] (requests u) of
        (Inl error, log) \<Rightarrow> on_catch e error (u\<lparr>requests := log\<rparr>)
      | (Inr _, log) \<Rightarrow>
          (case refreshAuth_throws e of
             Some error \<Rightarrow> on_catch e error (u\<lparr>requests := log\<rparr>)
           | None \<Rightarrow>
               (let u1 = u\<lparr>requests := log, refreshes := Suc (refreshes u)\<rparr> in
                case navigate_throws e ''/'' of
                  Some error \<Rightarrow> on_catch e error u1
                | None \<Rightarrow> u1\<lparr>navigations := navigations u1 @ [''/'']\<rparr>)))"

section \<open>The relational schema (schema.prisma)\<close>

subsection \<open>The declarations\<close>

text \<open>
  The schema file is a list of declarations, and it is embedded as the data it is: every
  model with its fields in the order of the file, every field with its type, its arity
  (\<open>T\<close>, \<open>T?\<close> or \<open>T[]\<close>) and its attributes, every relation with the \<open>fields\<close>,
  \<open>references\<close> and \<open>onDelete\<close> arguments it is given (a relation field without
  \<open>@relation\<close> is the other side of one, and has none), and the block attributes
  \<open>@@id\<close>, \<open>@@unique\<close>, \<open>@@index\<close> and \<open>@@map\<close>.
\<close>

datatype model =
    AuthUser | AuthSession | AuthKey | UserEmailVerification | UserSystemRole
  | Book | Verse | Word | LemmaForm | Lemma
  | Language | LanguageImportJob | LanguageMemberRole
  | Gloss | GlossHistoryEntry | MachineGloss | LemmaResource | TranslatorNote | Footnote

definition all_models :: "model list" where
  "all_models =
     [AuthUser, AuthSession, AuthKey, UserEmailVerification, UserSystemRole,
      Book, Verse, Word, LemmaForm, Lemma,
      Language, LanguageImportJob, LanguageMemberRole,
      Gloss, GlossHistoryEntry, MachineGloss, LemmaResource, TranslatorNote, Footnote]"

datatype enum =
  EmailStatus | SystemRole | TextDirection | LanguageRole | GlossState | GlossSource | ResourceCode

primrec enum_values :: "enum \<Rightarrow> string list" where
  "enum_values EmailStatus = [''UNVERIFIED'', ''VERIFIED'', ''BOUNCED'', ''COMPLAINED'']"
| "enum_values SystemRole = [''ADMIN'']"
| "enum_values TextDirection = [''ltr'', ''rtl'']"
| "enum_values LanguageRole = [''ADMIN'', ''TRANSLATOR'', ''VIEWER'']"
| "enum_values GlossState = [''APPROVED'', ''UNAPPROVED'']"
| "enum_values GlossSource = [''USER'', ''IMPORT'']"
| "enum_values ResourceCode = [''BDB'', ''LSJ'', ''STRONGS'']"

datatype scalar = TString | TInt | TBigInt | TBoolean | TDateTime | TEnum enum

datatype arity = Required | Optional | ListOf

datatype dflt = Dbgenerated string | Now | DefaultEnum string | DefaultString string

datatype attr = IdAttr | UniqueAttr | DefaultAttr dflt | DbUuid

text \<open>The one referential action the file writes is \<open>Cascade\<close>; the other two are the
  actions a relation without \<open>onDelete\<close> gets (see \<open>referential_action\<close>).\<close>

datatype action = Cascade | Restrict | SetNull

datatype field =
    ScalarField string scalar arity "attr list"
  | RelationField string model arity "string list" "string list" "action option"

datatype block = BlockId "string list" | BlockUnique "string list" | BlockIndex "string list"
  | BlockMap string

primrec schema :: "model \<Rightarrow> field list \<times> block list" where
  "schema AuthUser =
     ([ScalarField ''id'' TString Required
          [IdAttr, DefaultAttr (Dbgenerated ''generate_ulid()''), DbUuid],
       ScalarField ''name'' TString Optional [],
       ScalarField ''emailStatus'' (TEnum EmailStatus) Required
          [DefaultAttr (DefaultEnum ''UNVERIFIED'')],
       RelationField ''systemRoles'' UserSystemRole ListOf [] [] None,
       RelationField ''auth_session'' AuthSession ListOf [] [] None,
       RelationField ''auth_key'' AuthKey ListOf [] [] None,
       RelationField ''importJobs'' LanguageImportJob ListOf [] [] None,
       RelationField ''languageRoles'' LanguageMemberRole ListOf [] [] None,
       RelationField ''emailVerifications'' UserEmailVerification ListOf [] [] None,
       RelationField ''glossHistory'' GlossHistoryEntry ListOf [] [] None,
       RelationField ''translatorNotes'' TranslatorNote ListOf [] [] None,
       RelationField ''footnotes'' Footnote ListOf [] [] None],
      [BlockMap ''User''])"
| "schema AuthSession =
     ([ScalarField ''id'' TString Required [IdAttr, UniqueAttr],
       ScalarField ''user_id'' TString Required [DbUuid],
       ScalarField ''active_expires'' TBigInt Required [],
       ScalarField ''idle_expires'' TBigInt Required [],
       RelationField ''auth_user'' AuthUser Required [''user_id''] [''id''] (Some Cascade)],
      [BlockIndex [''user_id''], BlockMap ''Session''])"
| "schema AuthKey =
     ([ScalarField ''id'' TString Required [IdAttr, UniqueAttr],
       ScalarField ''hashed_password'' TString Optional [],
       ScalarField ''user_id'' TString Required [DbUuid],
       ScalarField ''primary_key'' TBoolean Required [],
       ScalarField ''expires'' TBigInt Optional [],
       RelationField ''auth_user'' AuthUser Required [''user_id''] [''id''] (Some Cascade)],
      [BlockIndex [''user_id''], BlockMap ''UserAuthentication''])"
| "schema UserEmailVerification =
     ([ScalarField ''userId'' TString Required [DbUuid],
       RelationField ''user'' AuthUser Required [''userId''] [''id''] (Some Cascade),
       ScalarField ''email'' TString Required [],
       ScalarField ''token'' TString Required [IdAttr, UniqueAttr],
       ScalarField ''expires'' TBigInt Required []],
      [])"
| "schema UserSystemRole =
     ([RelationField ''user'' AuthUser Required [''userId''] [''id''] (Some Cascade),
       ScalarField ''userId'' TString Required [DbUuid],
       ScalarField ''role'' (TEnum SystemRole) Required []],
      [BlockId [''userId'', ''role'']])"
| "schema Book =
     ([ScalarField ''id'' TInt Required [IdAttr],
       ScalarField ''name'' TString Required [UniqueAttr],
       RelationField ''verses'' Verse ListOf [] [] None],
      [])"
| "schema Verse =
     ([ScalarField ''id'' TString Required [IdAttr],
       ScalarField ''number'' TInt Required [],
       ScalarField ''chapter'' TInt Required [],
       RelationField ''book'' Book Required [''bookId''] [''id''] None,
       ScalarField ''bookId'' TInt Required [],
       RelationField ''words'' Word ListOf [] [] None],
      [BlockUnique [''bookId'', ''chapter'', ''number'']])"
| "schema Word =
     ([ScalarField ''id'' TString Required [IdAttr],
       ScalarField ''text'' TString Required [],
       RelationField ''verse'' Verse Required [''verseId''] [''id''] None,
       ScalarField ''verseId'' TString Required [],
       RelationField ''form'' LemmaForm Required [''formId''] [''id''] None,
       ScalarField ''formId'' TString Required [],
       RelationField ''glosses'' Gloss ListOf [] [] None,
       RelationField ''glossHistory'' GlossHistoryEntry ListOf [] [] None,
       RelationField ''machineGlosses'' MachineGloss ListOf [] [] None,
       RelationField ''translatorNotes'' TranslatorNote ListOf [] [] None,
       RelationField ''footnotes'' Footnote ListOf [] [] None],
      [BlockIndex [''formId'']])"
| "schema LemmaForm =
     ([ScalarField ''id'' TString Required [IdAttr],
       ScalarField ''grammar'' TString Required [],
       RelationField ''lemma'' Lemma Required [''lemmaId''] [''id''] None,
       ScalarField ''lemmaId'' TString Required [],
       RelationField ''word'' Word ListOf [] [] None],
      [BlockIndex [''lemmaId'']])"
| "schema Lemma =
     ([ScalarField ''id'' TString Required [IdAttr],
       RelationField ''forms'' LemmaForm ListOf [] [] None,
       RelationField ''resources'' LemmaResource ListOf [] [] None],
      [])"
| "schema Language =
     ([ScalarField ''id'' TString Required
          [IdAttr, DefaultAttr (Dbgenerated ''generate_ulid()''), DbUuid],
       ScalarField ''code'' TString Required [UniqueAttr],
       ScalarField ''name'' TString Required [],
       ScalarField ''font'' TString Required [DefaultAttr (DefaultString ''Noto Sans'')],
       ScalarField ''textDirection'' (TEnum TextDirection) Required
          [DefaultAttr (DefaultEnum ''ltr'')],
       ScalarField ''bibleTranslationIds'' TString ListOf [],
       RelationField ''glosses'' Gloss ListOf [] [] None,
       RelationField ''glossHistory'' GlossHistoryEntry ListOf [] [] None,
       RelationField ''machineGlosses'' MachineGloss ListOf [] [] None,
       RelationField ''translatorNotes'' TranslatorNote ListOf [] [] None,
       RelationField ''footnotes'' Footnote ListOf [] [] None,
       RelationField ''roles'' LanguageMemberRole ListOf [] [] None,
       RelationField ''importJob'' LanguageImportJob Optional [] [] None],
      [])"
| "schema LanguageImportJob =
     ([RelationField ''language'' Language Required [''languageId''] [''id''] None,
       ScalarField ''languageId'' TString Required [IdAttr, DbUuid],
       RelationField ''user'' AuthUser Optional [''userId''] [''id''] None,
       ScalarField ''userId'' TString Optional [DbUuid],
       ScalarField ''startDate'' TDateTime Required [],
       ScalarField ''endDate'' TDateTime Optional [],
       ScalarField ''succeeded'' TBoolean Optional []],
      [])"
| "schema LanguageMemberRole =
     ([RelationField ''user'' AuthUser Required [''userId''] [''id''] None,
       ScalarField ''userId'' TString Required [DbUuid],
       RelationField ''language'' Language Required [''languageId''] [''id''] None,
       ScalarField ''languageId'' TString Required [DbUuid],
       ScalarField ''role'' (TEnum LanguageRole) Required []],
      [BlockId [''languageId'', ''userId'', ''role'']])"
| "schema Gloss =
     ([RelationField ''word'' Word Required [''wordId''] [''id''] None,
       ScalarField ''wordId'' TString Required [],
       RelationField ''language'' Language Required [''languageId''] [''id''] None,
       ScalarField ''languageId'' TString Required [DbUuid],
       ScalarField ''gloss'' TString Optional [],
       ScalarField ''state'' (TEnum GlossState) Required
          [DefaultAttr (DefaultEnum ''UNAPPROVED'')]],
      [BlockId [''wordId'', ''languageId'']])"
| "schema GlossHistoryEntry =
     ([RelationField ''word'' Word Required [''wordId''] [''id''] None,
       ScalarField ''wordId'' TString Required [],
       RelationField ''language'' Language Required [''languageId''] [''id''] None,
       ScalarField ''languageId'' TString Required [DbUuid],
       ScalarField ''timestamp'' TDateTime Required [DefaultAttr Now],
       RelationField ''user'' AuthUser Optional [''userId''] [''id''] None,
       ScalarField ''userId'' TString Optional [DbUuid],
       ScalarField ''gloss'' TString Optional [],
       ScalarField ''state'' (TEnum GlossState) Optional [],
       ScalarField ''source'' (TEnum GlossSource) Required []],
      [BlockId [''wordId'', ''languageId'', ''timestamp'']])"
| "schema MachineGloss =
     ([RelationField ''word'' Word Required [''wordId''] [''id''] None,
       ScalarField ''wordId'' TString Required [],
       RelationField ''language'' Language Required [''languageId''] [''id''] None,
       ScalarField ''languageId'' TString Required [DbUuid],
       ScalarField ''gloss'' TString Optional []],
      [BlockId [''wordId'', ''languageId'']])"
| "schema LemmaResource =
     ([RelationField ''lemma'' Lemma Required [''lemmaId''] [''id''] None,
       ScalarField ''lemmaId'' TString Required [],
       ScalarField ''resourceCode'' (TEnum ResourceCode) Required [],
       ScalarField ''content'' TString Required []],
      [BlockId [''lemmaId'', ''resourceCode''], BlockIndex [''lemmaId'']])"
| "schema TranslatorNote =
     ([RelationField ''word'' Word Required [''wordId''] [''id''] None,
       ScalarField ''wordId'' TString Required [],
       RelationField ''language'' Language Required [''languageId''] [''id''] None,
       ScalarField ''languageId'' TString Required [DbUuid],
       RelationField ''author'' AuthUser Required [''authorId''] [''id''] None,
       ScalarField ''authorId'' TString Required [DbUuid],
       ScalarField ''timestamp'' TDateTime Required [],
       ScalarField ''content'' TString Required []],
      [BlockId [''wordId'', ''languageId'']])"
| "schema Footnote =
     ([RelationField ''word'' Word Required [''wordId''] [''id''] None,
       ScalarField ''wordId'' TString Required [],
       RelationField ''language'' Language Required [''languageId''] [''id''] None,
       ScalarField ''languageId'' TString Required [DbUuid],
       RelationField ''author'' AuthUser Required [''authorId''] [''id''] None,
       ScalarField ''authorId'' TString Required [DbUuid],
       ScalarField ''timestamp'' TDateTime Required [],
       ScalarField ''content'' TString Required []],
      [BlockId [''wordId'', ''languageId'']])"

definition fields_of :: "model \<Rightarrow> field list" where
  "fields_of m = fst (schema m)"

definition blocks_of :: "model \<Rightarrow> block list" where
  "blocks_of m = snd (schema m)"

subsection \<open>What the declarations mean for the stored rows\<close>

text \<open>
  The schema has no code of its own: it is read by Prisma and enforced by PostgreSQL. The
  definitions below give the declarations the meaning those two give them, as far as keys,
  defaults, nullability and referential actions go: a row is the list of its columns, a
  database holds the rows of every model, \<open>create\<close> is an insert and \<open>delete\<close> removes
  the row with a given key. The format of a value (a UUID, a ULID) is not modelled.
\<close>

datatype val =
    VNull
  | VString string
  | VInt int
  | VBool bool
  | VTime int
  | VEnum string
  | VList "val list"

type_synonym row = "(string \<times> val) list"

type_synonym db = "model \<Rightarrow> row list"

text \<open>
  The errors of an operation: the client's refusal of an ill-formed input, and the
  database's unique-constraint, foreign-key and missing-record errors. \<open>NestingTooDeep\<close>
  belongs to the model alone: it is what \<open>delete_rows\<close> returns when its bound
  on nested cascades is used up, which in this schema it never is (lemma
  \<open>delete_never_too_deep\<close>).
\<close>

datatype error =
    ValidationError string
  | UniqueConstraintFailed "string list"
  | ForeignKeyConstraintFailed model "string list"
  | RecordNotFound
  | NestingTooDeep

definition empty_db :: db where
  "empty_db = (\<lambda>m. [])"

definition field_value :: "row \<Rightarrow> string \<Rightarrow> val" where
  "field_value r n = (case map_of r n of Some v \<Rightarrow> v | None \<Rightarrow> VNull)"

definition key_of :: "string list \<Rightarrow> row \<Rightarrow> val list" where
  "key_of ks r = map (field_value r) ks"

text \<open>The primary key is the model's \<open>@@id\<close>, or else its \<open>@id\<close> field; the unique keys
  are the primary key, every \<open>@unique\<close> field and every \<open>@@unique\<close>.\<close>

definition primary_key :: "model \<Rightarrow> string list" where
  "primary_key m =
     (case [ks. BlockId ks \<leftarrow> blocks_of m] of
        ks # _ \<Rightarrow> ks
      | [] \<Rightarrow> [n. ScalarField n ty ar ats \<leftarrow> fields_of m, IdAttr \<in> set ats])"

definition unique_keys :: "model \<Rightarrow> string list list" where
  "unique_keys m =
     primary_key m
     # [[n]. ScalarField n ty ar ats \<leftarrow> fields_of m, UniqueAttr \<in> set ats]
     @ [ks. BlockUnique ks \<leftarrow> blocks_of m]"

definition scalar_names :: "model \<Rightarrow> string list" where
  "scalar_names m = [n. ScalarField n ty ar ats \<leftarrow> fields_of m]"

primrec field_name :: "field \<Rightarrow> string" where
  "field_name (ScalarField n ty ar ats) = n"
| "field_name (RelationField n tgt ar fs rs od) = n"

text \<open>What the database fills in: a generated identifier and the current time.\<close>

record ctx =
  ctx_ulid :: string
  ctx_now :: int

primrec default_value :: "ctx \<Rightarrow> dflt \<Rightarrow> val" where
  "default_value c (Dbgenerated f) = VString (ctx_ulid c)"
| "default_value c Now = VTime (ctx_now c)"
| "default_value c (DefaultEnum x) = VEnum x"
| "default_value c (DefaultString x) = VString x"

text \<open>A column the caller leaves out takes the field's \<open>@default\<close>; without one it is
  empty (\<open>[]\<close> for a list, null otherwise).\<close>

definition initial :: "ctx \<Rightarrow> arity \<Rightarrow> attr list \<Rightarrow> val" where
  "initial c ar ats =
     (case [d. DefaultAttr d \<leftarrow> ats] of
        d # _ \<Rightarrow> default_value c d
      | [] \<Rightarrow> if ar = ListOf then VList [] else VNull)"

definition supplied :: "row \<Rightarrow> string \<Rightarrow> val \<Rightarrow> val" where
  "supplied inp n dv = (case map_of inp n of Some v \<Rightarrow> v | None \<Rightarrow> dv)"

primrec column :: "ctx \<Rightarrow> row \<Rightarrow> field \<Rightarrow> row" where
  "column c inp (ScalarField n ty ar ats) = [(n, supplied inp n (initial c ar ats))]"
| "column c inp (RelationField n tgt ar fs rs od) = []"

definition new_row :: "ctx \<Rightarrow> model \<Rightarrow> row \<Rightarrow> row" where
  "new_row c m inp = concat (map (column c inp) (fields_of m))"

fun has_type :: "scalar \<Rightarrow> val \<Rightarrow> bool" where
  "has_type TString (VString x) = True"
| "has_type TInt (VInt x) = True"
| "has_type TBigInt (VInt x) = True"
| "has_type TBoolean (VBool x) = True"
| "has_type TDateTime (VTime x) = True"
| "has_type (TEnum e) (VEnum x) = (x \<in> set (enum_values e))"
| "has_type ty v = False"

text \<open>A required field holds a value of its type, an optional one may hold null, a list
  field holds a list.\<close>

primrec well_typed :: "scalar \<Rightarrow> val \<Rightarrow> arity \<Rightarrow> bool" where
  "well_typed ty v Required = has_type ty v"
| "well_typed ty v Optional = (v = VNull \<or> has_type ty v)"
| "well_typed ty v ListOf = (case v of VList vs \<Rightarrow> list_all (has_type ty) vs | _ \<Rightarrow> False)"

primrec field_ok :: "row \<Rightarrow> field \<Rightarrow> bool" where
  "field_ok r (ScalarField n ty ar ats) = well_typed ty (field_value r n) ar"
| "field_ok r (RelationField n tgt ar fs rs od) = True"

text \<open>A relation with \<open>fields\<close> and \<open>references\<close> is a foreign key: unless one of its
  columns is null, the row it points to exists.\<close>

primrec fk_ok :: "db \<Rightarrow> row \<Rightarrow> field \<Rightarrow> bool" where
  "fk_ok d r (ScalarField n ty ar ats) = True"
| "fk_ok d r (RelationField n tgt ar fs rs od) =
     (fs = [] \<or> VNull \<in> set (key_of fs r) \<or> (\<exists>p \<in> set (d tgt). key_of rs p = key_of fs r))"

definition taken :: "db \<Rightarrow> model \<Rightarrow> row \<Rightarrow> string list \<Rightarrow> bool" where
  "taken d m r ks = (\<exists>r' \<in> set (d m). key_of ks r' = key_of ks r)"

definition create :: "ctx \<Rightarrow> model \<Rightarrow> row \<Rightarrow> db \<Rightarrow> error + db" where
  "create c m inp d =
     (case find (\<lambda>(k, v). k \<notin> set (scalar_names m)) inp of
        Some (k, v) \<Rightarrow> Inl (ValidationError k)
      | None \<Rightarrow>
     (let r = new_row c m inp in
      case find (\<lambda>f. \<not> field_ok r f) (fields_of m) of
        Some f \<Rightarrow> Inl (ValidationError (field_name f))
      | None \<Rightarrow>
     (case find (taken d m r) (unique_keys m) of
        Some ks \<Rightarrow> Inl (UniqueConstraintFailed ks)
      | None \<Rightarrow>
     (case find (\<lambda>f. \<not> fk_ok d r f) (fields_of m) of
        Some f \<Rightarrow> Inl (ForeignKeyConstraintFailed m [field_name f])
      | None \<Rightarrow> Inr (d(m := d m @ [r]))))))"

text \<open>
  The referential action of a relation: the \<open>onDelete\<close> it declares, and without one
  Prisma's default, \<open>SetNull\<close> for an optional relation and \<open>Restrict\<close> for a required one.
\<close>

definition referential_action :: "arity \<Rightarrow> action option \<Rightarrow> action" where
  "referential_action ar od =
     (case od of Some a \<Rightarrow> a | None \<Rightarrow> if ar = Optional then SetNull else Restrict)"

text \<open>The foreign keys that point to a model: the model holding the key, its columns, the
  columns they reference, and the action.\<close>

definition incoming :: "model \<Rightarrow> (model \<times> string list \<times> string list \<times> action) list" where
  "incoming tgt =
     [(m, fs, rs, referential_action ar od).
        m \<leftarrow> all_models, RelationField n tgt' ar fs rs od \<leftarrow> fields_of m, tgt' = tgt, fs \<noteq> []]"

definition refers :: "string list \<Rightarrow> string list \<Rightarrow> row list \<Rightarrow> row \<Rightarrow> bool" where
  "refers fs rs victims r =
     (VNull \<notin> set (key_of fs r) \<and> (\<exists>v \<in> set victims. key_of rs v = key_of fs r))"

definition set_null :: "string list \<Rightarrow> row \<Rightarrow> row" where
  "set_null fs r = map (\<lambda>(k, v). if k \<in> set fs then (k, VNull) else (k, v)) r"

fun fold_err :: "('a \<Rightarrow> 's \<Rightarrow> error + 's) \<Rightarrow> 'a list \<Rightarrow> 's \<Rightarrow> error + 's" where
  "fold_err f [] s = Inr s"
| "fold_err f (x # xs) s = (case f x s of Inl e \<Rightarrow> Inl e | Inr s' \<Rightarrow> fold_err f xs s')"

text \<open>
  Removing the rows of a model that satisfy \<open>P\<close>: every foreign key pointing to the model
  takes its action on the rows that refer to a removed row. \<open>Cascade\<close> removes them in
  turn, \<open>SetNull\<close> empties their key columns, \<open>Restrict\<close> refuses the whole removal. The
  first argument bounds how deep a cascade may go.
\<close>

primrec delete_rows :: "nat \<Rightarrow> model \<Rightarrow> (row \<Rightarrow> bool) \<Rightarrow> db \<Rightarrow> error + db" where
  "delete_rows 0 = (\<lambda>m P d. Inl NestingTooDeep)"
| "delete_rows (Suc k) = (\<lambda>m P d.
     (let victims = filter P (d m) in
      fold_err
        (\<lambda>(c, fs, rs, a) d'.
           (case a of
              Cascade \<Rightarrow> delete_rows k c (refers fs rs victims) d'
            | SetNull \<Rightarrow>
                Inr (d'(c := map (\<lambda>r. if refers fs rs victims r then set_null fs r else r) (d' c)))
            | Restrict \<Rightarrow>
                if \<exists>r \<in> set (d' c). refers fs rs victims r
                then Inl (ForeignKeyConstraintFailed c fs) else Inr d'))
        (incoming m)
        (d(m := filter (\<lambda>r. \<not> P r) (d m)))))"

definition delete :: "model \<Rightarrow> val list \<Rightarrow> db \<Rightarrow> error + db" where
  "delete m k d =
     (if \<exists>r \<in> set (d m). key_of (primary_key m) r = k
      then delete_rows (length all_models) m (\<lambda>r. key_of (primary_key m) r = k) d
      else Inl RecordNotFound)"

text \<open>The databases that inserts and removals can build from the empty one.\<close>

inductive reachable :: "db \<Rightarrow> bool" where
  empty: "reachable empty_db"
| created: "reachable d \<Longrightarrow> create c m inp d = Inr d' \<Longrightarrow> reachable d'"
| deleted: "reachable d \<Longrightarrow> delete m k d = Inr d' \<Longrightarrow> reachable d'"

text \<open>The rows of a table that carry a given key, and the columns of a model that a
  removal elsewhere may empty.\<close>

definition rows_with :: "string list \<Rightarrow> val list \<Rightarrow> row list \<Rightarrow> row list" where
  "rows_with ks k rows = filter (\<lambda>r. key_of ks r = k) rows"

definition setnull_columns :: "model \<Rightarrow> string list" where
  "setnull_columns m =
     concat [fs. RelationField n tgt ar fs rs od \<leftarrow> fields_of m,
                 referential_action ar od = SetNull]"

section \<open>Example data\<close>

text \<open>A small database and a network, for evaluating the definitions on concrete input.\<close>

definition always_null :: http where
  "always_null r = Inr Null"

definition rejects_with :: "nat \<Rightarrow> http" where
  "rejects_with status r = Inl (ApiClientError status)"

definition example_env :: "http \<Rightarrow> env" where
  "example_env h =
     \<lparr>env_net = h,
      env_t = (\<lambda>k. if k = ''users:errors.invalid_auth'' then ''Invalid email or password.'' else k),
      env_to_string = (\<lambda>e. case e of ApiClientError status \<Rightarrow> ''Error'' | Thrown v \<Rightarrow> ''thrown''),
      refreshAuth_throws = None,
      navigate_throws = (\<lambda>p. None)\<rparr>"

definition example_form :: js_object where
  "example_form = [(''email'', Str ''ana@example.org''), (''password'', Str ''secret'')]"

definition fresh_ui :: ui where
  "fresh_ui = \<lparr>flashes = [], refreshes = 0, navigations = [], requests = []\<rparr>"

definition example_ctx :: ctx where
  "example_ctx = \<lparr>ctx_ulid = ''018b8a2e-0000-0000-0000-0000000000ff'', ctx_now = 1700000000\<rparr>"

abbreviation user_a :: string where
  "user_a \<equiv> ''018b8a2e-0000-0000-0000-00000000000a''"

abbreviation user_b :: string where
  "user_b \<equiv> ''018b8a2e-0000-0000-0000-00000000000b''"

abbreviation lang_es :: string where
  "lang_es \<equiv> ''018b8a2e-0000-0000-0000-0000000000e5''"

abbreviation word_1 :: string where
  "word_1 \<equiv> ''0100100101''"

fun create_all :: "ctx \<Rightarrow> (model \<times> row) list \<Rightarrow> db \<Rightarrow> error + db" where
  "create_all c [] d = Inr d"
| "create_all c ((m, inp) # ops) d =
     (case create c m inp d of Inl e \<Rightarrow> Inl e | Inr d' \<Rightarrow> create_all c ops d')"

definition example_inserts :: "(model \<times> row) list" where
  "example_inserts =
     [(Lemma, [(''id'', VString ''H7225'')]),
      (LemmaForm, [(''id'', VString ''H7225-1''), (''grammar'', VString ''Ncfsa''),
                   (''lemmaId'', VString ''H7225'')]),
      (Book, [(''id'', VInt 1), (''name'', VString ''Gen'')]),
      (Verse, [(''id'', VString ''01001001''), (''number'', VInt 1), (''chapter'', VInt 1),
               (''bookId'', VInt 1)]),
      (Word, [(''id'', VString word_1), (''text'', VString ''bereshit''),
              (''verseId'', VString ''01001001''), (''formId'', VString ''H7225-1'')]),
      (Language, [(''id'', VString lang_es), (''code'', VString ''es''),
                  (''name'', VString ''Espanol'')]),
      (AuthUser, [(''id'', VString user_a), (''name'', VString ''Ana'')]),
      (AuthUser, [(''id'', VString user_b), (''name'', VString ''Ben'')]),
      (AuthSession, [(''id'', VString ''s1''), (''user_id'', VString user_a),
                     (''active_expires'', VInt 1700003600), (''idle_expires'', VInt 1700007200)]),
      (LanguageImportJob, [(''languageId'', VString lang_es), (''userId'', VString user_a),
                           (''startDate'', VTime 1700000000)]),
      (LanguageMemberRole, [(''userId'', VString user_b), (''languageId'', VString lang_es),
                            (''role'', VEnum ''ADMIN'')]),
      (Gloss, [(''wordId'', VString word_1), (''languageId'', VString lang_es),
               (''gloss'', VString ''en el principio'')])]"

definition example_db :: db where
  "example_db = empty_db
     (Lemma := [[(''id'', VString ''H7225'')]],
      LemmaForm := [[(''id'', VString ''H7225-1''), (''grammar'', VString ''Ncfsa''),
                     (''lemmaId'', VString ''H7225'')]],
      Book := [[(''id'', VInt 1), (''name'', VString ''Gen'')]],
      Verse := [[(''id'', VString ''01001001''), (''number'', VInt 1), (''chapter'', VInt 1),
                 (''bookId'', VInt 1)]],
      Word := [[(''id'', VString word_1), (''text'', VString ''bereshit''),
                (''verseId'', VString ''01001001''), (''formId'', VString ''H7225-1'')]],
      Language := [[(''id'', VString lang_es), (''code'', VString ''es''),
                    (''name'', VString ''Espanol''), (''font'', VString ''Noto Sans''),
                    (''textDirection'', VEnum ''ltr''), (''bibleTranslationIds'', VList [])]],
      AuthUser := [[(''id'', VString user_a), (''name'', VString ''Ana''),
                    (''emailStatus'', VEnum ''UNVERIFIED'')],
                   [(''id'', VString user_b), (''name'', VString ''Ben''),
                    (''emailStatus'', VEnum ''UNVERIFIED'')]],
      AuthSession := [[(''id'', VString ''s1''), (''user_id'', VString user_a),
                       (''active_expires'', VInt 1700003600),
                       (''idle_expires'', VInt 1700007200)]],
      LanguageImportJob := [[(''languageId'', VString lang_es), (''userId'', VString user_a),
                             (''startDate'', VTime 1700000000), (''endDate'', VNull),
                             (''succeeded'', VNull)]],
      LanguageMemberRole := [[(''userId'', VString user_b), (''languageId'', VString lang_es),
                              (''role'', VEnum ''ADMIN'')]],
      Gloss := [[(''wordId'', VString word_1), (''languageId'', VString lang_es),
                 (''gloss'', VString ''en el principio''), (''state'', VEnum ''UNAPPROVED'')]])"

definition rows_after :: "model \<Rightarrow> error + db \<Rightarrow> error + row list" where
  "rows_after m res = (case res of Inl e \<Rightarrow> Inl e | Inr d \<Rightarrow> Inr (d m))"

section \<open>Properties of the REST client\<close>

lemmas client_defs = ApiClient_request_def ApiClient_get_def ApiClient_post_def
  ApiClient_patch_def ApiClient_delete_def await_void_def

text \<open>
  Claim C4. For an argument that carries the email \<open>email\<close> and the password
  \<open>password\<close>, \<open>Auth.login\<close> performs exactly one HTTP request: a POST to
  \<open>/api/auth/login\<close> whose body is the object with exactly those two values under
  \<open>email\<close> and \<open>password\<close>. The log of requests grows by that one request and nothing
  else, and the call's outcome is the outcome of that request.
\<close>

theorem login_issues_one_post:
  assumes "map_of arg ''email'' = Some email" and "map_of arg ''password'' = Some password"
  shows "Auth_login h arg log =
     (let r = \<lparr>verb = POST, path = ''/api/auth/login'', query = None,
               body = Some (Obj [(''email'', email), (''password'', password)])\<rparr>
      in (h r, log @ [r]))"
  using assms by (simp add: Auth_login_def client_defs property_def Let_def)

theorem login_issues_one_post_witness:
  "Auth_login always_null example_form [] =
     (Inr Null,
      [\<lparr>verb = POST, path = ''/api/auth/login'', query = None,
        body = Some (Obj [(''email'', Str ''ana@example.org''),
                          (''password'', Str ''secret'')])\<rparr>])"
  using login_issues_one_post[of example_form "Str ''ana@example.org''" "Str ''secret''"
      always_null "[]"]
  by (simp add: example_form_def always_null_def)

text \<open>
  Claim C8. Every method of \<open>Languages\<close> issues exactly one HTTP request, with the verb
  and the endpoint of its name: the log of requests grows by one request, whatever the
  log held before (no batching, no pagination, no state of the client's own).
\<close>

theorem languages_one_request_each:
  "snd (Languages_findAll h log) =
      log @ [\<lparr>verb = GET, path = ''/api/languages'', query = None, body = None\<rparr>]
   \<and> snd (Languages_create h language log) =
      log @ [\<lparr>verb = POST, path = ''/api/languages'', query = None,
               body = Some (Obj language)\<rparr>]
   \<and> snd (Languages_findByCode h code log) =
      log @ [\<lparr>verb = GET, path = ''/api/languages/'' @ code, query = None, body = None\<rparr>]
   \<and> snd (Languages_update h code language log) =
      log @ [\<lparr>verb = PATCH, path = ''/api/languages/'' @ code, query = None,
               body = Some (Obj language)\<rparr>]
   \<and> snd (Languages_startImport h code b log) =
      log @ [\<lparr>verb = POST, path = ''/api/languages/'' @ code @ ''/import'', query = None,
               body = Some (Obj b)\<rparr>]
   \<and> snd (Languages_importStatus h code log) =
      log @ [\<lparr>verb = GET, path = ''/api/languages/'' @ code @ ''/import'', query = None,
               body = None\<rparr>]
   \<and> snd (Languages_findMembers h code log) =
      log @ [\<lparr>verb = GET, path = ''/api/languages/'' @ code @ ''/members'', query = None,
               body = None\<rparr>]
   \<and> snd (Languages_inviteMember h code request log) =
      log @ [\<lparr>verb = POST, path = ''/api/languages/'' @ code @ ''/members'', query = None,
               body = Some (Obj request)\<rparr>]
   \<and> snd (Languages_updateMember h code userId roles log) =
      log @ [\<lparr>verb = PATCH, path = ''/api/languages/'' @ code @ ''/members/'' @ userId,
               query = None, body = Some (Obj [(''roles'', Arr roles)])\<rparr>]
   \<and> snd (Languages_removeMember h code userId log) =
      log @ [\<lparr>verb = DELETE, path = ''/api/languages/'' @ code @ ''/members/'' @ userId,
               query = None, body = None\<rparr>]"
  by (simp add: Languages_findAll_def Languages_create_def Languages_findByCode_def
      Languages_update_def Languages_startImport_def Languages_importStatus_def
      Languages_findMembers_def Languages_inviteMember_def Languages_updateMember_def
      Languages_removeMember_def client_defs Let_def split: sum.splits prod.splits)

text \<open>
  Claim C9. \<open>Languages.importStatus\<close> issues a GET to \<open>/api/languages/:code/import\<close>
  and discards what the server answered: when the request resolves, whatever its body,
  the method resolves to \<open>undefined\<close>; when the request throws, the method throws the
  same error. The import job's status never reaches the caller.
\<close>

theorem importStatus_discards_body:
  "Languages_importStatus h code log =
     (let r = \<lparr>verb = GET, path = ''/api/languages/'' @ code @ ''/import'', query = None,
               body = None\<rparr>
      in (case h r of Inl e \<Rightarrow> Inl e | Inr status \<Rightarrow> Inr Undefined, log @ [r]))"
  by (simp add: Languages_importStatus_def client_defs Let_def split: sum.splits)

text \<open>
  Claim C5, as amended. \<open>Auth.acceptInvite\<close> sends a body with exactly the fields
  \<open>token\<close>, \<open>name\<close> and \<open>password\<close>, read off its argument, whatever else the argument
  carries. \<open>Languages.inviteMember\<close> sends its \<open>request\<close> argument itself as the body:
  the body's fields are the argument's fields, all of them.
\<close>

theorem acceptInvite_picks_inviteMember_forwards:
  "body (last (snd (Auth_acceptInvite h arg log))) =
     Some (Obj [(''token'', property arg ''token''), (''name'', property arg ''name''),
                (''password'', property arg ''password'')])
   \<and> map_option keys (body (last (snd (Auth_acceptInvite h arg log)))) =
     Some [''token'', ''name'', ''password'']
   \<and> body (last (snd (Languages_inviteMember h code request log))) = Some (Obj request)
   \<and> map_option keys (body (last (snd (Languages_inviteMember h code request log)))) =
     Some (map fst request)"
  by (simp add: Auth_acceptInvite_def Languages_inviteMember_def client_defs keys_def Let_def)

text \<open>
  Claim C5 as stated fails for \<open>inviteMember\<close>: of two requests with the same
  \<open>email\<close> and \<open>roles\<close>, the one that carries a further property \<open>note\<close> is sent
  with that property in its body. The fields of the body are those of the argument, not a
  fixed list.
\<close>

theorem inviteMember_extra_property_counterexample:
  "map_option keys (body (last (snd (Languages_inviteMember always_null ''es''
      [(''email'', Str ''ana@example.org''), (''roles'', Arr [Str ''TRANSLATOR''])] [])))) =
     Some [''email'', ''roles'']
   \<and> map_option keys (body (last (snd (Languages_inviteMember always_null ''es''
      [(''email'', Str ''ana@example.org''), (''roles'', Arr [Str ''TRANSLATOR'']),
       (''note'', Str ''hello'')] [])))) =
     Some [''email'', ''roles'', ''note'']"
  by (simp add: Languages_inviteMember_def client_defs keys_def)

section \<open>Properties of the login view\<close>

text \<open>
  Claim C3. In the submit handler, when the auth client's login call throws: if the error
  is the client's error with status 401, the message flashed is the translation of
  \<open>users:errors.invalid_auth\<close>; for any other error it is the error's string form. One
  message is flashed, after those already there.
\<close>

theorem login_failure_message:
  assumes "fst (Auth_login (env_net e)
              [(''email'', property form ''email''), (''password'', property form ''password'')]
              (requests u)) = Inl error"
  shows "flashes (onSubmit e form u) =
           flashes u @ [FlashError (if error = ApiClientError 401
                                    then env_t e ''users:errors.invalid_auth''
                                    else env_to_string e error)]"
  using assms
  by (cases error)
     (auto simp: onSubmit_def on_catch_def flash_error_def Let_def split: prod.splits sum.splits)

theorem login_failure_message_witness:
  "flashes (onSubmit (example_env (rejects_with 401)) example_form fresh_ui) =
     [FlashError ''Invalid email or password.'']
   \<and> flashes (onSubmit (example_env (rejects_with 500)) example_form fresh_ui) =
     [FlashError ''Error'']"
  using login_failure_message[of "example_env (rejects_with 401)" example_form fresh_ui
      "ApiClientError 401"]
    login_failure_message[of "example_env (rejects_with 500)" example_form fresh_ui
      "ApiClientError 500"]
  by (simp add: example_env_def rejects_with_def example_form_def fresh_ui_def Auth_login_def
      client_defs property_def)

section \<open>Properties of the schema\<close>

subsection \<open>Keys survive inserts and removals\<close>

lemma fold_err_invariant:
  assumes "fold_err f xs s = Inr s'" and "I s"
    and "\<And>x a b. x \<in> set xs \<Longrightarrow> I a \<Longrightarrow> f x a = Inr b \<Longrightarrow> I b"
  shows "I s'"
  using assms
proof (induction xs arbitrary: s)
  case Nil
  then show ?case by simp
next
  case (Cons x xs)
  from Cons.prems(1) obtain s1 where s1: "f x s = Inr s1" and rest: "fold_err f xs s1 = Inr s'"
    by (auto split: sum.splits)
  have "I s1" using Cons.prems(3)[of x s s1] Cons.prems(2) s1 by simp
  show ?case
    by (rule Cons.IH[OF rest \<open>I s1\<close>]) (use Cons.prems(3) in auto)
qed

lemma field_value_set_null_other:
  "n \<notin> set fs \<Longrightarrow> field_value (set_null fs r) n = field_value r n"
  by (induction r) (auto simp: field_value_def set_null_def)

lemma field_value_set_null_same:
  "n \<in> set fs \<Longrightarrow> field_value (set_null fs r) n = VNull"
  by (induction r) (auto simp: field_value_def set_null_def)

lemma key_of_set_null:
  "set ks \<inter> set fs = {} \<Longrightarrow> key_of ks (set_null fs r) = key_of ks r"
  by (auto simp: key_of_def intro!: field_value_set_null_other)

lemma incoming_setnull:
  "(c, fs, rs, SetNull) \<in> set (incoming tgt) \<Longrightarrow> set fs \<subseteq> set (setnull_columns c)"
  by (auto simp: incoming_def setnull_columns_def split: field.splits if_splits)

lemma delete_rows_keeps_distinct:
  assumes "delete_rows k tgt P d = Inr d'"
    and "set ks \<inter> set (setnull_columns m) = {}"
    and "distinct (map (key_of ks) (d m))"
  shows "distinct (map (key_of ks) (d' m))"
  using assms
proof (induction k arbitrary: tgt P d d')
  case 0
  then show ?case by simp
next
  case (Suc k)
  let ?I = "\<lambda>x. distinct (map (key_of ks) (x m))"
  let ?victims = "filter P (d tgt)"
  let ?step = "\<lambda>(c, fs, rs, a) d'.
           (case a of
              Cascade \<Rightarrow> delete_rows k c (refers fs rs ?victims) d'
            | SetNull \<Rightarrow>
                Inr (d'(c := map (\<lambda>r. if refers fs rs ?victims r then set_null fs r else r) (d' c)))
            | Restrict \<Rightarrow>
                if \<exists>r \<in> set (d' c). refers fs rs ?victims r
                then Inl (ForeignKeyConstraintFailed c fs) else Inr d')"
  have run: "fold_err ?step (incoming tgt) (d(tgt := filter (\<lambda>r. \<not> P r) (d tgt))) = Inr d'"
    using Suc.prems(1) by (simp add: Let_def)
  have start: "?I (d(tgt := filter (\<lambda>r. \<not> P r) (d tgt)))"
    using Suc.prems(3) by (auto simp: distinct_map_filter)
  have step: "?I b" if x: "x \<in> set (incoming tgt)" and a: "?I a" and b: "?step x a = Inr b"
    for x a b
  proof -
    obtain c fs rs act where xe: "x = (c, fs, rs, act)" by (cases x) auto
    show ?thesis
    proof (cases act)
      case Cascade
      with b xe have "delete_rows k c (refers fs rs ?victims) a = Inr b" by simp
      from Suc.IH[OF this Suc.prems(2) a] show ?thesis .
    next
      case Restrict
      with b xe have "b = a" by (simp split: if_splits)
      with a show ?thesis by simp
    next
      case SetNull
      with b xe have be: "b = a(c := map (\<lambda>r. if refers fs rs ?victims r then set_null fs r else r) (a c))"
        by simp
      show ?thesis
      proof (cases "c = m")
        case False
        with be a show ?thesis by simp
      next
        case True
        from x xe SetNull True have "set fs \<subseteq> set (setnull_columns m)"
          using incoming_setnull by blast
        with Suc.prems(2) have disj: "set ks \<inter> set fs = {}" by blast
        have "key_of ks \<circ> (\<lambda>r. if refers fs rs ?victims r then set_null fs r else r)
              = key_of ks"
          by (rule ext) (simp add: key_of_set_null[OF disj])
        with be True a show ?thesis by simp
      qed
    qed
  qed
  show ?case
  proof (rule fold_err_invariant[of ?step "incoming tgt"
        "d(tgt := filter (\<lambda>r. \<not> P r) (d tgt))" d' ?I])
    show "fold_err ?step (incoming tgt) (d(tgt := filter (\<lambda>r. \<not> P r) (d tgt))) = Inr d'"
      by (rule run)
    show "?I (d(tgt := filter (\<lambda>r. \<not> P r) (d tgt)))"
      by (rule start)
    show "?I b" if "x \<in> set (incoming tgt)" "?I a" "?step x a = Inr b" for x a b
      using that by (rule step)
  qed
qed

lemma primary_key_in_unique_keys: "primary_key m \<in> set (unique_keys m)"
  by (simp add: unique_keys_def)

lemma create_Inr:
  assumes "create c m inp d = Inr d'"
  shows "d' = d(m := d m @ [new_row c m inp]) \<and> \<not> taken d m (new_row c m inp) (primary_key m)"
proof -
  from assms have 1: "find (taken d m (new_row c m inp)) (unique_keys m) = None"
    and 2: "d' = d(m := d m @ [new_row c m inp])"
    by (auto simp: create_def Let_def split: option.splits prod.splits)
  from 1 primary_key_in_unique_keys[of m] have "\<not> taken d m (new_row c m inp) (primary_key m)"
    by (auto simp: find_None_iff)
  with 2 show ?thesis by simp
qed

lemma create_keeps_distinct:
  assumes "create c m inp d = Inr d'"
    and "distinct (map (key_of (primary_key m')) (d m'))"
  shows "distinct (map (key_of (primary_key m')) (d' m'))"
  using create_Inr[OF assms(1)] assms(2)
  by (cases "m' = m") (auto simp: taken_def)

lemma create_taken:
  assumes "taken d m (new_row c m inp) (primary_key m)"
  shows "create c m inp d = Inl (UniqueConstraintFailed (primary_key m))
         \<or> (\<exists>n. create c m inp d = Inl (ValidationError n))"
proof -
  have "find (taken d m (new_row c m inp)) (unique_keys m) = Some (primary_key m)"
    using assms by (simp add: unique_keys_def)
  then show ?thesis
    by (auto simp: create_def Let_def split: option.splits prod.splits)
qed

lemma reachable_distinct:
  assumes "reachable d" and "set (primary_key m) \<inter> set (setnull_columns m) = {}"
  shows "distinct (map (key_of (primary_key m)) (d m))"
  using assms
proof (induction rule: reachable.induct)
  case empty
  then show ?case by (simp add: empty_db_def)
next
  case (created d c m' inp d')
  then show ?case using create_keeps_distinct by blast
next
  case (deleted d m' k d')
  from deleted.hyps(2) have "delete_rows (length all_models) m' (\<lambda>r. key_of (primary_key m') r = k) d = Inr d'"
    by (simp add: delete_def split: if_splits)
  from delete_rows_keeps_distinct[OF this deleted.prems] deleted.IH[OF deleted.prems]
  show ?case by simp
qed

lemma distinct_at_most_one:
  "distinct (map f xs) \<Longrightarrow> length (filter (\<lambda>x. f x = k) xs) \<le> 1"
proof (induction xs)
  case Nil
  then show ?case by simp
next
  case (Cons a xs)
  show ?case
  proof (cases "f a = k")
    case True
    from Cons.prems have "f a \<notin> f ` set xs" by simp
    with True have "\<forall>x \<in> set xs. f x \<noteq> k" by blast
    then have "filter (\<lambda>x. f x = k) xs = []"
      by (simp add: filter_empty_conv)
    with True show ?thesis by simp
  next
    case False
    with Cons show ?thesis by simp
  qed
qed

lemma reachable_at_most_one:
  assumes "reachable d" and "set (primary_key m) \<inter> set (setnull_columns m) = {}"
  shows "length (rows_with (primary_key m) k (d m)) \<le> 1"
  unfolding rows_with_def
  by (rule distinct_at_most_one[OF reachable_distinct[OF assms]])

subsection \<open>Evaluating the schema\<close>

lemmas create_defs = create_def scalar_names_def fields_of_def blocks_of_def new_row_def
  supplied_def initial_def field_value_def key_of_def unique_keys_def primary_key_def
  taken_def Let_def

lemma create_all_reachable:
  "reachable d \<Longrightarrow> create_all c ops d = Inr d' \<Longrightarrow> reachable d'"
proof (induction ops arbitrary: d)
  case Nil
  then show ?case by simp
next
  case (Cons op ops)
  obtain m inp where op: "op = (m, inp)" by (cases op)
  from Cons.prems(2) op obtain d1 where d1: "create c m inp d = Inr d1"
    and rest: "create_all c ops d1 = Inr d'"
    by (auto split: sum.splits)
  from Cons.prems(1) d1 have "reachable d1" by (rule reachable.created)
  from Cons.IH[OF this rest] show ?case .
qed

lemma example_db_built: "create_all example_ctx example_inserts empty_db = Inr example_db"
  by (simp add: example_inserts_def example_db_def example_ctx_def empty_db_def create_defs)

lemma example_db_reachable: "reachable example_db"
  using create_all_reachable[OF reachable.empty example_db_built] .

lemmas example_defs = example_db_def empty_db_def

lemma word_language_pk:
  "primary_key Gloss = [''wordId'', ''languageId'']"
  "primary_key MachineGloss = [''wordId'', ''languageId'']"
  "primary_key TranslatorNote = [''wordId'', ''languageId'']"
  "primary_key Footnote = [''wordId'', ''languageId'']"
  by (simp_all add: primary_key_def blocks_of_def)

lemma word_language_setnull:
  "setnull_columns Gloss = []"
  "setnull_columns MachineGloss = []"
  "setnull_columns TranslatorNote = []"
  "setnull_columns Footnote = []"
  by (simp_all add: setnull_columns_def fields_of_def referential_action_def)

lemma field_value_Cons:
  "field_value ((n, v) # r) n' = (if n = n' then v else field_value r n')"
  by (simp add: field_value_def)

lemma supplied_VNull: "supplied inp n VNull = field_value inp n"
  by (simp add: field_value_def supplied_def)

lemma word_language_new_row:
  "key_of [''wordId'', ''languageId''] (new_row c Gloss inp) = key_of [''wordId'', ''languageId''] inp"
  "key_of [''wordId'', ''languageId''] (new_row c MachineGloss inp) = key_of [''wordId'', ''languageId''] inp"
  "key_of [''wordId'', ''languageId''] (new_row c TranslatorNote inp) = key_of [''wordId'', ''languageId''] inp"
  "key_of [''wordId'', ''languageId''] (new_row c Footnote inp) = key_of [''wordId'', ''languageId''] inp"
  by (simp_all add: new_row_def fields_of_def key_of_def field_value_Cons initial_def
      supplied_VNull)

lemma word_language_models:
  assumes "m \<in> {Gloss, MachineGloss, TranslatorNote, Footnote}"
  shows "primary_key m = [''wordId'', ''languageId'']"
    and "setnull_columns m = []"
    and "key_of [''wordId'', ''languageId''] (new_row c m inp) = key_of [''wordId'', ''languageId''] inp"
  using assms word_language_pk word_language_setnull word_language_new_row by blast+

lemma import_job_facts:
  "primary_key LanguageImportJob = [''languageId'']"
  "setnull_columns LanguageImportJob = [''userId'']"
  "key_of [''languageId''] (new_row c LanguageImportJob inp) = key_of [''languageId''] inp"
  by (simp_all add: primary_key_def setnull_columns_def blocks_of_def fields_of_def
      referential_action_def new_row_def key_of_def field_value_Cons initial_def supplied_VNull)

lemma member_role_facts:
  "primary_key LanguageMemberRole = [''languageId'', ''userId'', ''role'']"
  "setnull_columns LanguageMemberRole = []"
  "key_of [''languageId'', ''userId'', ''role''] (new_row c LanguageMemberRole inp)
     = key_of [''languageId'', ''userId'', ''role''] inp"
  by (simp_all add: primary_key_def setnull_columns_def blocks_of_def fields_of_def
      referential_action_def new_row_def key_of_def field_value_Cons initial_def supplied_VNull)

lemma create_member_role:
  assumes "p \<in> set (d AuthUser)" and "field_value p ''id'' = VString u"
    and "q \<in> set (d Language)" and "field_value q ''id'' = VString l"
    and "role \<in> set (enum_values LanguageRole)"
    and "\<forall>r \<in> set (d LanguageMemberRole).
           key_of [''languageId'', ''userId'', ''role''] r \<noteq> [VString l, VString u, VEnum role]"
  shows "create c LanguageMemberRole
           [(''userId'', VString u), (''languageId'', VString l), (''role'', VEnum role)] d
         = Inr (d(LanguageMemberRole := d LanguageMemberRole @
                  [[(''userId'', VString u), (''languageId'', VString l), (''role'', VEnum role)]]))"
proof -
  have u: "\<exists>p \<in> set (d AuthUser). field_value p ''id'' = VString u" using assms(1,2) by blast
  have l: "\<exists>q \<in> set (d Language). field_value q ''id'' = VString l" using assms(3,4) by blast
  have f: "\<forall>r \<in> set (d LanguageMemberRole).
             field_value r ''languageId'' = VString l \<longrightarrow> field_value r ''userId'' = VString u
             \<longrightarrow> field_value r ''role'' \<noteq> VEnum role"
    using assms(6) by (simp add: key_of_def)
  show ?thesis
    using u l f assms(5)
    by (simp add: create_def scalar_names_def fields_of_def blocks_of_def new_row_def
        supplied_def initial_def key_of_def unique_keys_def primary_key_def taken_def Let_def
        field_value_Cons)
qed

subsection \<open>Removing a user\<close>

lemma incoming_AuthUser: "incoming AuthUser =
  [(AuthSession, [''user_id''], [''id''], Cascade), (AuthKey, [''user_id''], [''id''], Cascade),
   (UserEmailVerification, [''userId''], [''id''], Cascade), (UserSystemRole, [''userId''], [''id''], Cascade),
   (LanguageImportJob, [''userId''], [''id''], SetNull), (LanguageMemberRole, [''userId''], [''id''], Restrict),
   (GlossHistoryEntry, [''userId''], [''id''], SetNull), (TranslatorNote, [''authorId''], [''id''], Restrict),
   (Footnote, [''authorId''], [''id''], Restrict)]"
  by (simp add: incoming_def all_models_def fields_of_def referential_action_def)

lemma incoming_leaves:
  "incoming AuthSession = []" "incoming AuthKey = []"
  "incoming UserEmailVerification = []" "incoming UserSystemRole = []"
  by (simp_all add: incoming_def all_models_def fields_of_def referential_action_def)

lemma delete_rows_leaf:
  "incoming m = [] \<Longrightarrow> delete_rows (Suc k) m P d = Inr (d(m := filter (\<lambda>r. \<not> P r) (d m)))"
  by simp

lemma delete_rows_AuthUser:
  "delete_rows (Suc (Suc k)) AuthUser P d =
     (let vs = filter P (d AuthUser) in
      if \<exists>r \<in> set (d LanguageMemberRole). refers [''userId''] [''id''] vs r
      then Inl (ForeignKeyConstraintFailed LanguageMemberRole [''userId''])
      else if \<exists>r \<in> set (d TranslatorNote). refers [''authorId''] [''id''] vs r
      then Inl (ForeignKeyConstraintFailed TranslatorNote [''authorId''])
      else if \<exists>r \<in> set (d Footnote). refers [''authorId''] [''id''] vs r
      then Inl (ForeignKeyConstraintFailed Footnote [''authorId''])
      else Inr (d(AuthUser := filter (\<lambda>r. \<not> P r) (d AuthUser),
                  AuthSession := filter (\<lambda>r. \<not> refers [''user_id''] [''id''] vs r) (d AuthSession),
                  AuthKey := filter (\<lambda>r. \<not> refers [''user_id''] [''id''] vs r) (d AuthKey),
                  UserEmailVerification :=
                    filter (\<lambda>r. \<not> refers [''userId''] [''id''] vs r) (d UserEmailVerification),
                  UserSystemRole := filter (\<lambda>r. \<not> refers [''userId''] [''id''] vs r) (d UserSystemRole),
                  LanguageImportJob :=
                    map (\<lambda>r. if refers [''userId''] [''id''] vs r then set_null [''userId''] r else r)
                      (d LanguageImportJob),
                  GlossHistoryEntry :=
                    map (\<lambda>r. if refers [''userId''] [''id''] vs r then set_null [''userId''] r else r)
                      (d GlossHistoryEntry))))"
  unfolding delete_rows.simps(2)[of "Suc k"] incoming_AuthUser
  by (simp add: delete_rows_leaf incoming_leaves Let_def)

lemma primary_key_AuthUser: "primary_key AuthUser = [''id'']"
  by (simp add: primary_key_def blocks_of_def fields_of_def)

lemma length_all_models: "length all_models = Suc (Suc 17)"
  by (simp add: all_models_def)

lemma refers_one:
  assumes "v \<in> set (d AuthUser)" and "field_value v ''id'' = VString u"
  shows "refers [f] [''id''] (filter (\<lambda>r. key_of [''id''] r = [VString u]) (d AuthUser)) r
         \<longleftrightarrow> field_value r f = VString u"
  using assms by (auto simp: refers_def key_of_def)

lemma delete_AuthUser:
  assumes "v \<in> set (d AuthUser)" and "field_value v ''id'' = VString u"
  shows "delete AuthUser [VString u] d =
     (if \<exists>r \<in> set (d LanguageMemberRole). field_value r ''userId'' = VString u
      then Inl (ForeignKeyConstraintFailed LanguageMemberRole [''userId''])
      else if \<exists>r \<in> set (d TranslatorNote). field_value r ''authorId'' = VString u
      then Inl (ForeignKeyConstraintFailed TranslatorNote [''authorId''])
      else if \<exists>r \<in> set (d Footnote). field_value r ''authorId'' = VString u
      then Inl (ForeignKeyConstraintFailed Footnote [''authorId''])
      else Inr (d(AuthUser := filter (\<lambda>r. field_value r ''id'' \<noteq> VString u) (d AuthUser),
                  AuthSession := filter (\<lambda>r. field_value r ''user_id'' \<noteq> VString u) (d AuthSession),
                  AuthKey := filter (\<lambda>r. field_value r ''user_id'' \<noteq> VString u) (d AuthKey),
                  UserEmailVerification :=
                    filter (\<lambda>r. field_value r ''userId'' \<noteq> VString u) (d UserEmailVerification),
                  UserSystemRole := filter (\<lambda>r. field_value r ''userId'' \<noteq> VString u) (d UserSystemRole),
                  LanguageImportJob :=
                    map (\<lambda>r. if field_value r ''userId'' = VString u then set_null [''userId''] r else r)
                      (d LanguageImportJob),
                  GlossHistoryEntry :=
                    map (\<lambda>r. if field_value r ''userId'' = VString u then set_null [''userId''] r else r)
                      (d GlossHistoryEntry))))"
proof -
  have ex: "\<exists>r \<in> set (d AuthUser). key_of (primary_key AuthUser) r = [VString u]"
    using assms by (auto simp: primary_key_AuthUser key_of_def)
  have k: "(\<lambda>r. key_of [''id''] r \<noteq> [VString u]) = (\<lambda>r. field_value r ''id'' \<noteq> VString u)"
    by (simp add: key_of_def)
  have "delete AuthUser [VString u] d =
        delete_rows (Suc (Suc 17)) AuthUser (\<lambda>r. key_of [''id''] r = [VString u]) d"
    using ex by (simp only: delete_def length_all_models primary_key_AuthUser if_True)
  also note delete_rows_AuthUser
  finally show ?thesis
    by (simp add: Let_def refers_one[of v d u, OF assms] k)
qed

subsection \<open>No removal runs into the bound on nesting\<close>

text \<open>
  In this schema a cascade only reaches models that nothing points to, so a removal is
  never cut short: \<open>delete\<close> returns the new database or one of the database's own
  errors.
\<close>

lemma fold_err_never:
  assumes "\<And>x s. x \<in> set xs \<Longrightarrow> f x s \<noteq> Inl e"
  shows "fold_err f xs s \<noteq> Inl e"
  using assms
  by (induction xs arbitrary: s) (auto split: sum.splits)

lemma delete_rows_shallow:
  assumes "\<And>c fs rs. (c, fs, rs, Cascade) \<in> set (incoming m) \<Longrightarrow> incoming c = []"
  shows "delete_rows (Suc (Suc k)) m P d \<noteq> Inl NestingTooDeep"
proof -
  have "fold_err
        (\<lambda>(c, fs, rs, a) d'.
           (case a of
              Cascade \<Rightarrow> delete_rows (Suc k) c (refers fs rs (filter P (d m))) d'
            | SetNull \<Rightarrow>
                Inr (d'(c := map (\<lambda>r. if refers fs rs (filter P (d m)) r then set_null fs r else r) (d' c)))
            | Restrict \<Rightarrow>
                if \<exists>r \<in> set (d' c). refers fs rs (filter P (d m)) r
                then Inl (ForeignKeyConstraintFailed c fs) else Inr d'))
        (incoming m)
        (d(m := filter (\<lambda>r. \<not> P r) (d m))) \<noteq> Inl NestingTooDeep"
  proof (rule fold_err_never)
    fix x s assume x: "x \<in> set (incoming m)"
    obtain c fs rs a where xe: "x = (c, fs, rs, a)" by (cases x) auto
    show "(case x of (c, fs, rs, a) \<Rightarrow> \<lambda>d'.
           (case a of
              Cascade \<Rightarrow> delete_rows (Suc k) c (refers fs rs (filter P (d m))) d'
            | SetNull \<Rightarrow>
                Inr (d'(c := map (\<lambda>r. if refers fs rs (filter P (d m)) r then set_null fs r else r) (d' c)))
            | Restrict \<Rightarrow>
                if \<exists>r \<in> set (d' c). refers fs rs (filter P (d m)) r
                then Inl (ForeignKeyConstraintFailed c fs) else Inr d')) s \<noteq> Inl NestingTooDeep"
    proof (cases a)
      case Cascade
      with x xe assms have "incoming c = []" by blast
      with Cascade xe show ?thesis by simp
    qed (simp_all add: xe)
  qed
  then show ?thesis
    unfolding delete_rows.simps(2)[of "Suc k"] Let_def .
qed

lemma cascades_are_shallow:
  "(c, fs, rs, Cascade) \<in> set (incoming m) \<Longrightarrow> incoming c = []"
  by (cases m) (auto simp: incoming_def all_models_def fields_of_def referential_action_def)

lemma delete_never_too_deep: "delete m k d \<noteq> Inl NestingTooDeep"
  using delete_rows_shallow[where m = m and k = 17, OF cascades_are_shallow]
  by (simp add: delete_def length_all_models del: delete_rows.simps)

subsection \<open>The claims about keys and removal\<close>

text \<open>
  Claim C1. Each of the models \<open>Gloss\<close>, \<open>MachineGloss\<close>, \<open>TranslatorNote\<close> and
  \<open>Footnote\<close> declares \<open>(wordId, languageId)\<close> as its primary key. In every database
  that inserts and removals can build, the table holds at most one row for a word \<open>w\<close>
  and a language \<open>l\<close>; and an insert whose \<open>wordId\<close> and \<open>languageId\<close> are those of
  a row already in the table is rejected: with the unique-constraint error on that key,
  unless the input was refused before it reached the table.
\<close>

theorem gloss_tables_one_row_per_word_and_language:
  assumes "m \<in> {Gloss, MachineGloss, TranslatorNote, Footnote}"
  shows "primary_key m = [''wordId'', ''languageId'']
     \<and> (reachable d \<longrightarrow> length (rows_with [''wordId'', ''languageId''] [w, l] (d m)) \<le> 1)
     \<and> (r \<in> set (d' m) \<and> field_value r ''wordId'' = field_value inp ''wordId''
          \<and> field_value r ''languageId'' = field_value inp ''languageId''
        \<longrightarrow> create c m inp d' = Inl (UniqueConstraintFailed [''wordId'', ''languageId''])
            \<or> (\<exists>n. create c m inp d' = Inl (ValidationError n)))"
proof -
  note facts = word_language_models[OF assms]
  have one: "length (rows_with [''wordId'', ''languageId''] [w, l] (d m)) \<le> 1" if "reachable d"
    using reachable_at_most_one[OF that, of m "[w, l]"] facts(1,2) by simp
  have dup: "create c m inp d' = Inl (UniqueConstraintFailed [''wordId'', ''languageId''])
            \<or> (\<exists>n. create c m inp d' = Inl (ValidationError n))"
    if "r \<in> set (d' m)" "field_value r ''wordId'' = field_value inp ''wordId''"
      "field_value r ''languageId'' = field_value inp ''languageId''"
  proof -
    have "key_of [''wordId'', ''languageId''] r = key_of [''wordId'', ''languageId''] (new_row c m inp)"
      using that(2,3) by (simp add: facts(3)) (simp add: key_of_def)
    with that(1) have "taken d' m (new_row c m inp) (primary_key m)"
      by (auto simp: taken_def facts(1))
    from create_taken[OF this] show ?thesis by (simp add: facts(1))
  qed
  from facts(1) one dup show ?thesis by blast
qed

theorem gloss_tables_one_row_witness:
  "primary_key Gloss = [''wordId'', ''languageId'']
   \<and> length (rows_with [''wordId'', ''languageId''] [VString word_1, VString lang_es]
        (example_db Gloss)) \<le> 1
   \<and> create example_ctx Gloss
         [(''wordId'', VString word_1), (''languageId'', VString lang_es),
          (''gloss'', VString ''al comienzo'')] example_db
        = Inl (UniqueConstraintFailed [''wordId'', ''languageId''])"
  using gloss_tables_one_row_per_word_and_language[of Gloss example_db "VString word_1"
      "VString lang_es"
      "[(''wordId'', VString word_1), (''languageId'', VString lang_es),
        (''gloss'', VString ''en el principio''), (''state'', VEnum ''UNAPPROVED'')]"
      example_db
      "[(''wordId'', VString word_1), (''languageId'', VString lang_es),
        (''gloss'', VString ''al comienzo'')]" example_ctx]
    example_db_reachable
  by (simp add: example_defs example_ctx_def create_defs)

text \<open>
  Claim C2, as amended. The relations to \<open>AuthUser\<close> that declare \<open>onDelete: Cascade\<close>
  are those of sessions, auth keys, email verifications and system roles. Removing a user
  \<open>u\<close> that exists is refused while a language member role, a translator note or a
  footnote refers to \<open>u\<close> (their relations declare no action, and are required).
  Otherwise it succeeds: the user's sessions, auth keys, email verifications and system
  roles are removed with the user; import jobs and gloss history entries of \<open>u\<close> stay,
  with their \<open>userId\<close> set to null (their relations declare no action, and are
  optional); every other table is unchanged; and no row of any table refers to \<open>u\<close>
  afterwards.
\<close>

theorem delete_user_cascades_where_declared:
  assumes "v \<in> set (d AuthUser)" and "field_value v ''id'' = VString u"
  shows "if (\<exists>r \<in> set (d LanguageMemberRole). field_value r ''userId'' = VString u)
          \<or> (\<exists>r \<in> set (d TranslatorNote). field_value r ''authorId'' = VString u)
          \<or> (\<exists>r \<in> set (d Footnote). field_value r ''authorId'' = VString u)
       then \<exists>c fs. delete AuthUser [VString u] d = Inl (ForeignKeyConstraintFailed c fs)
       else \<exists>d'. delete AuthUser [VString u] d = Inr d'
          \<and> d' AuthUser = filter (\<lambda>r. field_value r ''id'' \<noteq> VString u) (d AuthUser)
          \<and> d' AuthSession = filter (\<lambda>r. field_value r ''user_id'' \<noteq> VString u) (d AuthSession)
          \<and> d' AuthKey = filter (\<lambda>r. field_value r ''user_id'' \<noteq> VString u) (d AuthKey)
          \<and> d' UserEmailVerification =
              filter (\<lambda>r. field_value r ''userId'' \<noteq> VString u) (d UserEmailVerification)
          \<and> d' UserSystemRole =
              filter (\<lambda>r. field_value r ''userId'' \<noteq> VString u) (d UserSystemRole)
          \<and> d' LanguageImportJob =
              map (\<lambda>r. if field_value r ''userId'' = VString u then set_null [''userId''] r else r)
                (d LanguageImportJob)
          \<and> d' GlossHistoryEntry =
              map (\<lambda>r. if field_value r ''userId'' = VString u then set_null [''userId''] r else r)
                (d GlossHistoryEntry)
          \<and> (\<forall>m. m \<notin> {AuthUser, AuthSession, AuthKey, UserEmailVerification, UserSystemRole,
                        LanguageImportJob, GlossHistoryEntry} \<longrightarrow> d' m = d m)
          \<and> (\<forall>(c, fs, rs, a) \<in> set (incoming AuthUser). \<forall>r \<in> set (d' c). key_of fs r \<noteq> [VString u])"
  unfolding delete_AuthUser[of v d u, OF assms] incoming_AuthUser
  by (auto simp: key_of_def field_value_set_null_same)

theorem delete_user_witness:
  "rows_after AuthUser (delete AuthUser [VString user_a] example_db) =
     Inr [[(''id'', VString user_b), (''name'', VString ''Ben''),
           (''emailStatus'', VEnum ''UNVERIFIED'')]]
   \<and> rows_after AuthSession (delete AuthUser [VString user_a] example_db) = Inr []
   \<and> rows_after LanguageImportJob (delete AuthUser [VString user_a] example_db) =
     Inr [[(''languageId'', VString lang_es), (''userId'', VNull),
           (''startDate'', VTime 1700000000), (''endDate'', VNull), (''succeeded'', VNull)]]"
  using delete_user_cascades_where_declared[of
      "[(''id'', VString user_a), (''name'', VString ''Ana''),
        (''emailStatus'', VEnum ''UNVERIFIED'')]" example_db user_a]
  by (auto simp: example_defs field_value_def rows_after_def set_null_def)

text \<open>
  Claim C2 as stated fails. In the example database the user \<open>user_b\<close> holds a language
  member role: removing that user is refused with a foreign-key error, so nothing
  cascades to the role. The user \<open>user_a\<close> started an import job: removing that user
  succeeds and the job's row is still there, with an empty \<open>userId\<close>.
\<close>

theorem delete_user_counterexample:
  "delete AuthUser [VString user_b] example_db =
     Inl (ForeignKeyConstraintFailed LanguageMemberRole [''userId''])
   \<and> rows_after LanguageImportJob (delete AuthUser [VString user_a] example_db) =
     Inr [[(''languageId'', VString lang_es), (''userId'', VNull),
           (''startDate'', VTime 1700000000), (''endDate'', VNull), (''succeeded'', VNull)]]"
proof -
  have 1: "delete AuthUser [VString user_b] example_db =
     Inl (ForeignKeyConstraintFailed LanguageMemberRole [''userId''])"
    using delete_AuthUser[of "[(''id'', VString user_b), (''name'', VString ''Ben''),
            (''emailStatus'', VEnum ''UNVERIFIED'')]" example_db user_b]
    by (simp add: example_defs field_value_def)
  have 2: "rows_after LanguageImportJob (delete AuthUser [VString user_a] example_db) =
     Inr [[(''languageId'', VString lang_es), (''userId'', VNull),
           (''startDate'', VTime 1700000000), (''endDate'', VNull), (''succeeded'', VNull)]]"
    using delete_AuthUser[of "[(''id'', VString user_a), (''name'', VString ''Ana''),
            (''emailStatus'', VEnum ''UNVERIFIED'')]" example_db user_a]
    by (simp add: example_defs field_value_def rows_after_def set_null_def)
  from 1 2 show ?thesis by simp
qed

text \<open>
  Claim C6. \<open>languageId\<close> is the primary key of \<open>LanguageImportJob\<close>, and the other
  side of the relation, \<open>Language.importJob\<close>, is a single optional job, not a list. In
  every database that inserts and removals can build, the table holds at most one job
  for a language, and an insert with the \<open>languageId\<close> of a job already in the table is
  rejected.
\<close>

theorem import_job_one_row_per_language:
  "primary_key LanguageImportJob = [''languageId'']
   \<and> RelationField ''importJob'' LanguageImportJob Optional [] [] None \<in> set (fields_of Language)
   \<and> (reachable d \<longrightarrow> length (rows_with [''languageId''] [l] (d LanguageImportJob)) \<le> 1)
   \<and> (r \<in> set (d' LanguageImportJob)
        \<and> field_value r ''languageId'' = field_value inp ''languageId''
      \<longrightarrow> create c LanguageImportJob inp d' = Inl (UniqueConstraintFailed [''languageId''])
          \<or> (\<exists>n. create c LanguageImportJob inp d' = Inl (ValidationError n)))"
proof -
  have other_side: "RelationField ''importJob'' LanguageImportJob Optional [] [] None
              \<in> set (fields_of Language)"
    by (simp add: fields_of_def)
  have one: "length (rows_with [''languageId''] [l] (d LanguageImportJob)) \<le> 1" if "reachable d"
    using reachable_at_most_one[OF that, of LanguageImportJob "[l]"] import_job_facts(1,2)
    by simp
  have dup: "create c LanguageImportJob inp d' = Inl (UniqueConstraintFailed [''languageId''])
          \<or> (\<exists>n. create c LanguageImportJob inp d' = Inl (ValidationError n))"
    if "r \<in> set (d' LanguageImportJob)"
      "field_value r ''languageId'' = field_value inp ''languageId''"
  proof -
    have "key_of [''languageId''] r = key_of [''languageId''] (new_row c LanguageImportJob inp)"
      using that(2) by (simp add: import_job_facts(3)) (simp add: key_of_def)
    with that(1) have "taken d' LanguageImportJob (new_row c LanguageImportJob inp)
                         (primary_key LanguageImportJob)"
      by (auto simp: taken_def import_job_facts(1))
    from create_taken[OF this] show ?thesis by (simp add: import_job_facts(1))
  qed
  from import_job_facts(1) other_side one dup show ?thesis by blast
qed

theorem import_job_one_row_witness:
  "primary_key LanguageImportJob = [''languageId'']
   \<and> length (rows_with [''languageId''] [VString lang_es] (example_db LanguageImportJob)) \<le> 1
   \<and> create example_ctx LanguageImportJob
         [(''languageId'', VString lang_es), (''userId'', VString user_b),
          (''startDate'', VTime 1700009999)] example_db
        = Inl (UniqueConstraintFailed [''languageId''])"
  using import_job_one_row_per_language[of example_db "VString lang_es"
      "[(''languageId'', VString lang_es), (''userId'', VString user_a),
        (''startDate'', VTime 1700000000), (''endDate'', VNull), (''succeeded'', VNull)]"
      example_db
      "[(''languageId'', VString lang_es), (''userId'', VString user_b),
        (''startDate'', VTime 1700009999)]" example_ctx]
    example_db_reachable
  by (simp add: example_defs example_ctx_def create_defs)

text \<open>
  Claim C7. The primary key of \<open>LanguageMemberRole\<close> is \<open>(languageId, userId, role)\<close>.
  An insert whose three key columns are those of a row already in the table is rejected,
  and a reachable table holds at most one row for a triple. A user who holds a role
  \<open>role1\<close> for a language can be given a second role \<open>role2\<close> for it: the insert
  succeeds, and both rows are in the table afterwards.
\<close>

theorem member_roles_keyed_by_language_user_role:
  "primary_key LanguageMemberRole = [''languageId'', ''userId'', ''role'']
   \<and> (reachable d \<longrightarrow>
        length (rows_with [''languageId'', ''userId'', ''role''] [l, u, ro]
                  (d LanguageMemberRole)) \<le> 1)
   \<and> (r \<in> set (d' LanguageMemberRole)
        \<and> field_value r ''languageId'' = field_value inp ''languageId''
        \<and> field_value r ''userId'' = field_value inp ''userId''
        \<and> field_value r ''role'' = field_value inp ''role''
      \<longrightarrow> create c LanguageMemberRole inp d'
            = Inl (UniqueConstraintFailed [''languageId'', ''userId'', ''role''])
          \<or> (\<exists>n. create c LanguageMemberRole inp d' = Inl (ValidationError n)))
   \<and> (p \<in> set (d' AuthUser) \<and> field_value p ''id'' = VString uid
        \<and> q \<in> set (d' Language) \<and> field_value q ''id'' = VString lid
        \<and> r1 \<in> set (d' LanguageMemberRole)
        \<and> key_of [''languageId'', ''userId'', ''role''] r1 = [VString lid, VString uid, VEnum role1]
        \<and> role2 \<in> set (enum_values LanguageRole) \<and> role1 \<noteq> role2
        \<and> (\<forall>x \<in> set (d' LanguageMemberRole).
              key_of [''languageId'', ''userId'', ''role''] x
                \<noteq> [VString lid, VString uid, VEnum role2])
      \<longrightarrow> (\<exists>d2. create c LanguageMemberRole
                  [(''userId'', VString uid), (''languageId'', VString lid),
                   (''role'', VEnum role2)] d' = Inr d2
             \<and> d2 LanguageMemberRole = d' LanguageMemberRole @
                  [[(''userId'', VString uid), (''languageId'', VString lid),
                    (''role'', VEnum role2)]]
             \<and> r1 \<in> set (d2 LanguageMemberRole)))"
proof -
  have one: "length (rows_with [''languageId'', ''userId'', ''role''] [l, u, ro]
                  (d LanguageMemberRole)) \<le> 1" if "reachable d"
    using reachable_at_most_one[OF that, of LanguageMemberRole "[l, u, ro]"]
      member_role_facts(1,2) by simp
  have dup: "create c LanguageMemberRole inp d'
            = Inl (UniqueConstraintFailed [''languageId'', ''userId'', ''role''])
          \<or> (\<exists>n. create c LanguageMemberRole inp d' = Inl (ValidationError n))"
    if "r \<in> set (d' LanguageMemberRole)"
      "field_value r ''languageId'' = field_value inp ''languageId''"
      "field_value r ''userId'' = field_value inp ''userId''"
      "field_value r ''role'' = field_value inp ''role''"
  proof -
    have "key_of [''languageId'', ''userId'', ''role''] r
          = key_of [''languageId'', ''userId'', ''role''] (new_row c LanguageMemberRole inp)"
      using that(2,3,4) by (simp add: member_role_facts(3)) (simp add: key_of_def)
    with that(1) have "taken d' LanguageMemberRole (new_row c LanguageMemberRole inp)
                         (primary_key LanguageMemberRole)"
      by (auto simp: taken_def member_role_facts(1))
    from create_taken[OF this] show ?thesis by (simp add: member_role_facts(1))
  qed
  have both: "\<exists>d2. create c LanguageMemberRole
                  [(''userId'', VString uid), (''languageId'', VString lid),
                   (''role'', VEnum role2)] d' = Inr d2
             \<and> d2 LanguageMemberRole = d' LanguageMemberRole @
                  [[(''userId'', VString uid), (''languageId'', VString lid),
                    (''role'', VEnum role2)]]
             \<and> r1 \<in> set (d2 LanguageMemberRole)"
    if "p \<in> set (d' AuthUser)" "field_value p ''id'' = VString uid"
      "q \<in> set (d' Language)" "field_value q ''id'' = VString lid"
      "r1 \<in> set (d' LanguageMemberRole)"
      "role2 \<in> set (enum_values LanguageRole)"
      "\<forall>x \<in> set (d' LanguageMemberRole).
              key_of [''languageId'', ''userId'', ''role''] x
                \<noteq> [VString lid, VString uid, VEnum role2]"
    using create_member_role[of p d' uid q lid role2 c, OF that(1,2,3,4) that(6,7)] that(5)
    by simp
  from member_role_facts(1) one dup both show ?thesis by blast
qed

theorem member_roles_witness:
  "primary_key LanguageMemberRole = [''languageId'', ''userId'', ''role'']
   \<and> length (rows_with [''languageId'', ''userId'', ''role'']
               [VString lang_es, VString user_b, VEnum ''ADMIN'']
               (example_db LanguageMemberRole)) \<le> 1
   \<and> create example_ctx LanguageMemberRole
         [(''userId'', VString user_b), (''languageId'', VString lang_es),
          (''role'', VEnum ''ADMIN'')] example_db
        = Inl (UniqueConstraintFailed [''languageId'', ''userId'', ''role''])
   \<and> rows_after LanguageMemberRole
        (create example_ctx LanguageMemberRole
         [(''userId'', VString user_b), (''languageId'', VString lang_es),
          (''role'', VEnum ''TRANSLATOR'')] example_db)
      = Inr [[(''userId'', VString user_b), (''languageId'', VString lang_es),
              (''role'', VEnum ''ADMIN'')],
             [(''userId'', VString user_b), (''languageId'', VString lang_es),
              (''role'', VEnum ''TRANSLATOR'')]]"
  using member_roles_keyed_by_language_user_role[of example_db "VString lang_es"
      "VString user_b" "VEnum ''ADMIN''"
      "[(''userId'', VString user_b), (''languageId'', VString lang_es),
        (''role'', VEnum ''ADMIN'')]"
      example_db
      "[(''userId'', VString user_b), (''languageId'', VString lang_es),
        (''role'', VEnum ''ADMIN'')]"
      example_ctx
      "[(''id'', VString user_b), (''name'', VString ''Ben''),
        (''emailStatus'', VEnum ''UNVERIFIED'')]"
      user_b
      "[(''id'', VString lang_es), (''code'', VString ''es''),
        (''name'', VString ''Espanol''), (''font'', VString ''Noto Sans''),
        (''textDirection'', VEnum ''ltr''), (''bibleTranslationIds'', VList [])]"
      lang_es
      "[(''userId'', VString user_b), (''languageId'', VString lang_es),
        (''role'', VEnum ''ADMIN'')]"
      "''ADMIN''" "''TRANSLATOR''"]
    example_db_reachable
  by (simp add: example_defs example_ctx_def create_defs rows_after_def)

text \<open>
  Claim C10. The field \<open>gloss\<close> of \<open>Gloss\<close> is optional and the field \<open>state\<close> has the
  default \<open>UNAPPROVED\<close>: a row created without a state has the state \<open>UNAPPROVED\<close>, and
  for a word and a language that exist and have no gloss yet, creating a gloss from the
  two identifiers alone succeeds and stores a row with that state and no gloss text.
\<close>

theorem gloss_state_defaults_to_unapproved:
  "ScalarField ''gloss'' TString Optional [] \<in> set (fields_of Gloss)
   \<and> ScalarField ''state'' (TEnum GlossState) Required
        [DefaultAttr (DefaultEnum ''UNAPPROVED'')] \<in> set (fields_of Gloss)
   \<and> (map_of inp ''state'' = None
      \<longrightarrow> field_value (new_row c Gloss inp) ''state'' = VEnum ''UNAPPROVED'')
   \<and> (p \<in> set (d Word) \<and> field_value p ''id'' = VString w
        \<and> q \<in> set (d Language) \<and> field_value q ''id'' = VString l
        \<and> (\<forall>r \<in> set (d Gloss).
              key_of [''wordId'', ''languageId''] r \<noteq> [VString w, VString l])
      \<longrightarrow> create c Gloss [(''wordId'', VString w), (''languageId'', VString l)] d
          = Inr (d(Gloss := d Gloss @
                   [[(''wordId'', VString w), (''languageId'', VString l),
                     (''gloss'', VNull), (''state'', VEnum ''UNAPPROVED'')]])))"
proof -
  have decl: "ScalarField ''gloss'' TString Optional [] \<in> set (fields_of Gloss)"
    "ScalarField ''state'' (TEnum GlossState) Required
        [DefaultAttr (DefaultEnum ''UNAPPROVED'')] \<in> set (fields_of Gloss)"
    by (simp_all add: fields_of_def)
  have dflt: "field_value (new_row c Gloss inp) ''state'' = VEnum ''UNAPPROVED''"
    if "map_of inp ''state'' = None"
    using that
    by (simp add: new_row_def fields_of_def field_value_Cons initial_def supplied_def)
  have ins: "create c Gloss [(''wordId'', VString w), (''languageId'', VString l)] d
          = Inr (d(Gloss := d Gloss @
                   [[(''wordId'', VString w), (''languageId'', VString l),
                     (''gloss'', VNull), (''state'', VEnum ''UNAPPROVED'')]]))"
    if "p \<in> set (d Word)" "field_value p ''id'' = VString w"
      "q \<in> set (d Language)" "field_value q ''id'' = VString l"
      "\<forall>r \<in> set (d Gloss). key_of [''wordId'', ''languageId''] r \<noteq> [VString w, VString l]"
  proof -
    have pw: "\<exists>p \<in> set (d Word). field_value p ''id'' = VString w" using that(1,2) by blast
    have ql: "\<exists>q \<in> set (d Language). field_value q ''id'' = VString l" using that(3,4) by blast
    have f: "\<forall>r \<in> set (d Gloss). field_value r ''wordId'' = VString w
               \<longrightarrow> field_value r ''languageId'' \<noteq> VString l"
      using that(5) by (simp add: key_of_def)
    show ?thesis
      using pw ql f
      by (simp add: create_def scalar_names_def fields_of_def blocks_of_def new_row_def
          supplied_def initial_def key_of_def unique_keys_def primary_key_def taken_def Let_def
          field_value_Cons)
  qed
  from decl dflt ins show ?thesis by blast
qed

theorem gloss_state_default_witness:
  "field_value (new_row example_ctx Gloss
       [(''wordId'', VString word_1), (''languageId'', VString lang_es)]) ''state''
     = VEnum ''UNAPPROVED''
   \<and> rows_after Gloss
        (create example_ctx Gloss [(''wordId'', VString word_1), (''languageId'', VString lang_es)]
           (example_db(Gloss := [])))
     = Inr [[(''wordId'', VString word_1), (''languageId'', VString lang_es),
             (''gloss'', VNull), (''state'', VEnum ''UNAPPROVED'')]]"
  using gloss_state_defaults_to_unapproved[of
      "[(''wordId'', VString word_1), (''languageId'', VString lang_es)]" example_ctx
      "[(''id'', VString word_1), (''text'', VString ''bereshit''),
        (''verseId'', VString ''01001001''), (''formId'', VString ''H7225-1'')]"
      "example_db(Gloss := [])" word_1
      "[(''id'', VString lang_es), (''code'', VString ''es''),
        (''name'', VString ''Espanol''), (''font'', VString ''Noto Sans''),
        (''textDirection'', VEnum ''ltr''), (''bibleTranslationIds'', VList [])]"
      lang_es]
  by (simp add: example_defs field_value_def rows_after_def)

end
